theory Spec2Isabelle
  imports Main
begin

section \<open>The session store of AuthContext.tsx\<close>

text \<open>
  The store is the React component \<^verbatim>\<open>AuthProvider\<close>: four state cells
  (\<^verbatim>\<open>currentUser\<close>, \<^verbatim>\<open>userProfile\<close>, \<^verbatim>\<open>session\<close>, \<^verbatim>\<open>loading\<close>), the flag
  \<^verbatim>\<open>mounted\<close> of its effect, and asynchronous functions that suspend at a remote call
  of the hosted service. The service is outside the repository: every answer it gives is
  an argument of the model, and every call made to it is a value the model returns.
  An asynchronous function is cut at its \<^verbatim>\<open>await\<close>: the part that runs up to the remote
  call, and the continuation that runs once the call has settled. Calls to the console are
  not modelled; they write no state. The second copy of the file differs from
  AuthContext.tsx in its console messages and in one repeated \<^verbatim>\<open>setLoading(false)\<close> only.
\<close>

subsection \<open>Data\<close>

text \<open>\<^verbatim>\<open>User\<close> and \<^verbatim>\<open>Session\<close> are records of the service; the code reads
  \<^verbatim>\<open>user.id\<close> and \<^verbatim>\<open>session?.user\<close> only.\<close>

datatype user = User (uid: string)

record session =
  access_token :: string
  user :: "user option"

text \<open>\<^verbatim>\<open>Omit<UserProfile, 'favorites' | 'isPaid'>\<close> and \<^verbatim>\<open>UserProfile\<close>.\<close>

record profile_input =
  username :: string
  email :: string
  phone :: string
  job :: string
  interests :: "string list"

record user_profile = profile_input +
  favorites :: "string list"
  isPaid :: bool

text \<open>A row of the table \<^verbatim>\<open>user_profiles\<close>, as it is inserted and as \<^verbatim>\<open>select('*')\<close>
  returns it. The columns that the code reads with a default (\<^verbatim>\<open>||\<close>) may be null.\<close>

record profile_row =
  user_id :: string
  username_col :: string
  email_col :: string
  phone_col :: "string option"
  job_col :: string
  interests_col :: "string list option"
  favorites_col :: "string list option"
  is_paid :: "bool option"

datatype remote_error = RemoteError (code: string) (message: string)

text \<open>What an awaited remote call does: it throws, or it returns \<^verbatim>\<open>{ data, error }\<close>.\<close>

datatype 'a awaited = Throws remote_error | Returns "'a option" "remote_error option"

text \<open>The calls the store makes to the service.\<close>

datatype request =
    GetSession
  | SignUp string string
  | SignInWithPassword string string
  | SignOut
  | Select string
  | Insert profile_row
  | UpdateFavorites string "string list"
  | UpdateIsPaid string bool

text \<open>The component: its four state cells, the effect's \<^verbatim>\<open>mounted\<close> flag, whether the
  subscription is held, and the remote calls whose continuations are suspended.\<close>

record auth =
  currentUser :: "user option"
  userProfile :: "user_profile option"
  session :: "session option"
  loading :: bool
  mounted :: bool
  subscribed :: bool
  inflight :: "request list"

subsection \<open>Profile fetch\<close>

text \<open>\<^verbatim>\<open>session?.user ?? null\<close>\<close>

definition session_user :: "session option \<Rightarrow> user option" where
  "session_user sess = (case sess of None \<Rightarrow> None | Some se \<Rightarrow> user se)"

text \<open>JavaScript's \<^verbatim>\<open>a || b\<close> on a nullable column: null, the empty string and false
  give \<^verbatim>\<open>b\<close>; an array, also an empty one, is kept.\<close>

definition or_string :: "string option \<Rightarrow> string \<Rightarrow> string" where
  "or_string a b = (case a of None \<Rightarrow> b | Some x \<Rightarrow> if x = [] then b else x)"

definition or_list :: "'a list option \<Rightarrow> 'a list \<Rightarrow> 'a list" where
  "or_list a b = (case a of None \<Rightarrow> b | Some x \<Rightarrow> x)"

definition or_bool :: "bool option \<Rightarrow> bool \<Rightarrow> bool" where
  "or_bool a b = (case a of None \<Rightarrow> b | Some x \<Rightarrow> if x then x else b)"

definition row_to_profile :: "profile_row \<Rightarrow> user_profile" where
  "row_to_profile d =
     \<lparr> username = username_col d,
       email = email_col d,
       phone = or_string (phone_col d) [],
       job = job_col d,
       interests = or_list (interests_col d) [],
       favorites = or_list (favorites_col d) [],
       isPaid = or_bool (is_paid d) False \<rparr>"

text \<open>\<^verbatim>\<open>fetchUserProfile(userId)\<close> up to its \<^verbatim>\<open>await\<close>: the query is sent.\<close>

definition fetchUserProfile_call :: "string \<Rightarrow> auth \<Rightarrow> auth" where
  "fetchUserProfile_call userId s = s\<lparr>inflight := inflight s @ [Select userId]\<rparr>"

text \<open>The rest of \<^verbatim>\<open>fetchUserProfile\<close>, once the query has settled: the \<^verbatim>\<open>try\<close> body,
  the \<^verbatim>\<open>catch\<close> and the \<^verbatim>\<open>finally\<close>. The first component is how the promise of
  \<^verbatim>\<open>fetchUserProfile\<close> settles (\<open>Inl\<close> a rejection). No line of it reads \<^verbatim>\<open>mounted\<close>.\<close>

definition fetchUserProfile_resume ::
    "profile_row awaited \<Rightarrow> auth \<Rightarrow> (remote_error + unit) \<times> auth" where
  "fetchUserProfile_resume r s =
     (case r of
        Throws e \<Rightarrow> (Inr (), s\<lparr>userProfile := None, loading := False\<rparr>)
      | Returns d err \<Rightarrow>
          (case err of
             Some e \<Rightarrow>
               (if code e = ''PGRST116''
                then (Inr (), s\<lparr>userProfile := None, loading := False\<rparr>)
                else (Inr (), s\<lparr>userProfile := None, loading := False\<rparr>))
           | None \<Rightarrow>
               (case d of
                  Some row \<Rightarrow>
                    (Inr (), s\<lparr>userProfile := Some (row_to_profile row), loading := False\<rparr>)
                | None \<Rightarrow> (Inr (), s\<lparr>userProfile := None, loading := False\<rparr>))))"

subsection \<open>The effect: initialisation, subscription, teardown\<close>

definition AuthProvider_init :: auth where
  "AuthProvider_init =
     \<lparr> currentUser = None, userProfile = None, session = None, loading = True,
       mounted = False, subscribed = False, inflight = [] \<rparr>"

text \<open>\<^verbatim>\<open>initializeAuth()\<close> up to \<^verbatim>\<open>await supabase.auth.getSession()\<close>, and its rest.\<close>

definition initializeAuth_call :: "auth \<Rightarrow> auth" where
  "initializeAuth_call s = s\<lparr>inflight := inflight s @ [GetSession]\<rparr>"

definition initializeAuth_resume :: "session awaited \<Rightarrow> auth \<Rightarrow> auth" where
  "initializeAuth_resume r s =
     (case r of
        Throws e \<Rightarrow> s
      | Returns sess (Some e) \<Rightarrow> (if mounted s then s\<lparr>loading := False\<rparr> else s)
      | Returns sess None \<Rightarrow>
          (if mounted s then
             (let s1 = s\<lparr>session := sess, currentUser := session_user sess\<rparr>
              in case session_user sess of
                   Some u \<Rightarrow> fetchUserProfile_call (uid u) s1
                 | None \<Rightarrow> s1\<lparr>loading := False\<rparr>)
           else s))"

text \<open>The callback given to \<^verbatim>\<open>onAuthStateChange\<close>, up to its \<^verbatim>\<open>await\<close>. Nothing follows
  the \<^verbatim>\<open>await fetchUserProfile(...)\<close> in it.\<close>

definition onAuthStateChange_callback :: "session option \<Rightarrow> auth \<Rightarrow> auth" where
  "onAuthStateChange_callback sess s =
     (if \<not> mounted s then s
      else
        (let s1 = s\<lparr>session := sess, currentUser := session_user sess\<rparr>
         in case session_user sess of
              Some u \<Rightarrow> fetchUserProfile_call (uid u) s1
            | None \<Rightarrow> s1\<lparr>userProfile := None, loading := False\<rparr>))"

text \<open>The body of \<^verbatim>\<open>useEffect\<close>, and the cleanup function it returns.\<close>

definition useEffect_run :: "auth \<Rightarrow> auth" where
  "useEffect_run s = (initializeAuth_call (s\<lparr>mounted := True\<rparr>))\<lparr>subscribed := True\<rparr>"

definition useEffect_cleanup :: "auth \<Rightarrow> auth" where
  "useEffect_cleanup s = s\<lparr>mounted := False, subscribed := False\<rparr>"

subsection \<open>The store as a transition system\<close>

text \<open>
  What can happen to a mounted store: the service calls the subscription's callback, a
  suspended remote call settles, or the component is torn down. A call settles only if it
  is in flight. The callback may be called at any time, also after the subscription was
  given back: the callback's own test of \<^verbatim>\<open>mounted\<close> is what the code relies on.
\<close>

datatype event =
    AuthStateChange "session option"
  | GetSessionSettles "session awaited"
  | SelectSettles string "profile_row awaited"
  | Teardown

fun step :: "event \<Rightarrow> auth \<Rightarrow> auth" where
  "step (AuthStateChange sess) s = onAuthStateChange_callback sess s"
| "step (GetSessionSettles r) s =
     (if GetSession \<in> set (inflight s)
      then initializeAuth_resume r (s\<lparr>inflight := remove1 GetSession (inflight s)\<rparr>)
      else s)"
| "step (SelectSettles userId r) s =
     (if Select userId \<in> set (inflight s)
      then snd (fetchUserProfile_resume r (s\<lparr>inflight := remove1 (Select userId) (inflight s)\<rparr>))
      else s)"
| "step Teardown s = useEffect_cleanup s"

definition run :: "event list \<Rightarrow> auth \<Rightarrow> auth" where
  "run evs s = foldl (\<lambda>s e. step e s) s evs"

text \<open>Handlings that do not overlap: initialisation with its profile fetch settled, and
  a session-change event with its profile fetch settled before anything else happens.\<close>

definition initializeAuth_settled :: "session awaited \<Rightarrow> profile_row awaited \<Rightarrow> auth \<Rightarrow> auth" where
  "initializeAuth_settled r f s =
     (let s1 = step (GetSessionSettles r) s
      in case r of
           Returns sess None \<Rightarrow>
             (case session_user sess of
                Some u \<Rightarrow>
                  if mounted s \<and> GetSession \<in> set (inflight s)
                  then step (SelectSettles (uid u) f) s1 else s1
              | None \<Rightarrow> s1)
         | _ \<Rightarrow> s1)"

definition event_settled :: "session option \<times> profile_row awaited \<Rightarrow> auth \<Rightarrow> auth" where
  "event_settled ev s =
     (let s1 = step (AuthStateChange (fst ev)) s
      in case session_user (fst ev) of
           Some u \<Rightarrow> if mounted s then step (SelectSettles (uid u) (snd ev)) s1 else s1
         | None \<Rightarrow> s1)"

definition events_settled :: "(session option \<times> profile_row awaited) list \<Rightarrow> auth \<Rightarrow> auth" where
  "events_settled evs s = foldl (\<lambda>s ev. event_settled ev s) s evs"

definition profile_only_with_identity :: "auth \<Rightarrow> bool" where
  "profile_only_with_identity s = (userProfile s = None \<or> currentUser s \<noteq> None)"

subsection \<open>The operations\<close>

text \<open>
  Each operation is given the state its closure sees (the cells of the render it was
  created in) and what its remote calls answer; it returns how its promise settles, the
  remote calls it made, and the state it leaves. An answer is read only if its call is made.
\<close>

definition signup ::
    "string \<Rightarrow> string \<Rightarrow> profile_input \<Rightarrow> user awaited \<Rightarrow> unit awaited \<Rightarrow>
     (remote_error + unit) \<times> request list" where
  "signup em password profile r1 r2 =
     (case r1 of
        Throws e \<Rightarrow> (Inl e, [SignUp em password])
      | Returns data_user err \<Rightarrow>
          (case err of
             Some e \<Rightarrow> (Inl e, [SignUp em password])
           | None \<Rightarrow>
               (case data_user of
                  None \<Rightarrow> (Inr (), [SignUp em password])
                | Some u \<Rightarrow>
                    (let row = \<lparr> user_id = uid u,
                                 username_col = username profile,
                                 email_col = email profile,
                                 phone_col = Some (phone profile),
                                 job_col = job profile,
                                 interests_col = Some (interests profile),
                                 favorites_col = Some [],
                                 is_paid = Some False \<rparr>
                     in case r2 of
                          Throws e \<Rightarrow> (Inl e, [SignUp em password, Insert row])
                        | Returns d (Some profileError) \<Rightarrow>
                            (Inl profileError, [SignUp em password, Insert row])
                        | Returns d None \<Rightarrow> (Inr (), [SignUp em password, Insert row])))))"

definition login :: "string \<Rightarrow> string \<Rightarrow> unit awaited \<Rightarrow> (remote_error + unit) \<times> request list" where
  "login em password r =
     (case r of
        Throws e \<Rightarrow> (Inl e, [SignInWithPassword em password])
      | Returns d (Some e) \<Rightarrow> (Inl e, [SignInWithPassword em password])
      | Returns d None \<Rightarrow> (Inr (), [SignInWithPassword em password]))"

definition logout :: "unit awaited \<Rightarrow> (remote_error + unit) \<times> request list" where
  "logout r =
     (case r of
        Throws e \<Rightarrow> (Inl e, [SignOut])
      | Returns d (Some e) \<Rightarrow> (Inl e, [SignOut])
      | Returns d None \<Rightarrow> (Inr (), [SignOut]))"

text \<open>\<^verbatim>\<open>Array.prototype.includes\<close> on strings.\<close>

fun array_includes :: "'a list \<Rightarrow> 'a \<Rightarrow> bool" where
  "array_includes [] x = False"
| "array_includes (y # ys) x = (y = x \<or> array_includes ys x)"

definition newFavorites :: "string list \<Rightarrow> string \<Rightarrow> string list" where
  "newFavorites favs toolId =
     (if array_includes favs toolId then filter (\<lambda>i. i \<noteq> toolId) favs else favs @ [toolId])"

definition toggleFavorite ::
    "string \<Rightarrow> unit awaited \<Rightarrow> auth \<Rightarrow> (remote_error + unit) \<times> request list \<times> auth" where
  "toggleFavorite toolId r s =
     (case (currentUser s, userProfile s) of
        (Some u, Some p) \<Rightarrow>
          (let favs = or_list (Some (favorites p)) [];
               new = newFavorites favs toolId;
               req = UpdateFavorites (uid u) new
           in case r of
                Throws e \<Rightarrow> (Inl e, [req], s)
              | Returns d (Some e) \<Rightarrow> (Inl e, [req], s)
              | Returns d None \<Rightarrow> (Inr (), [req], s\<lparr>userProfile := Some (p\<lparr>favorites := new\<rparr>)\<rparr>))
      | _ \<Rightarrow> (Inr (), [], s))"

definition updateSubscription ::
    "bool \<Rightarrow> unit awaited \<Rightarrow> auth \<Rightarrow> (remote_error + unit) \<times> request list \<times> auth" where
  "updateSubscription paid r s =
     (case (currentUser s, userProfile s) of
        (Some u, Some p) \<Rightarrow>
          (let req = UpdateIsPaid (uid u) paid
           in case r of
                Throws e \<Rightarrow> (Inl e, [req], s)
              | Returns d (Some e) \<Rightarrow> (Inl e, [req], s)
              | Returns d None \<Rightarrow> (Inr (), [req], s\<lparr>userProfile := Some (p\<lparr>isPaid := paid\<rparr>)\<rparr>))
      | _ \<Rightarrow> (Inr (), [], s))"

text \<open>The favorites the store has cached, if it has a profile.\<close>

definition cached_favorites :: "auth \<Rightarrow> string list option" where
  "cached_favorites s = map_option favorites (userProfile s)"

text \<open>The spec's words for the toggle: remove the id if it is present, else append it.\<close>

definition spec_toggle :: "string list \<Rightarrow> string \<Rightarrow> string list" where
  "spec_toggle F x = (if x \<in> set F then removeAll x F else F @ [x])"

subsection \<open>The accessor\<close>

text \<open>\<^verbatim>\<open>useContext(AuthContext)\<close>: the value of the nearest enclosing provider (the list
  has the enclosing providers' values, the nearest first), or the default given to
  \<^verbatim>\<open>createContext\<close>, which is \<^verbatim>\<open>undefined\<close>.\<close>

datatype js_error = Error string

definition useContext_AuthContext :: "'v list \<Rightarrow> 'v option" where
  "useContext_AuthContext providers = (case providers of [] \<Rightarrow> None | v # _ \<Rightarrow> Some v)"

definition useAuth :: "'v list \<Rightarrow> js_error + 'v" where
  "useAuth providers =
     (let context = useContext_AuthContext providers
      in case context of
           None \<Rightarrow> Inl (Error ''useAuth must be used within an AuthProvider'')
         | Some c \<Rightarrow> Inr c)"

subsection \<open>Example data\<close>

definition example_session :: session where
  "example_session = \<lparr> access_token = ''tok'', user = Some (User ''u1'') \<rparr>"

definition example_row :: profile_row where
  "example_row =
     \<lparr> user_id = ''u1'', username_col = ''a'', email_col = ''e@x.com'', phone_col = None,
       job_col = ''j'', interests_col = Some [''x''], favorites_col = None, is_paid = None \<rparr>"

text \<open>A signed-in store whose cached profile has the favorites \<open>F\<close>.\<close>

definition example_store :: "string list \<Rightarrow> auth" where
  "example_store F =
     \<lparr> currentUser = Some (User ''u1''),
       userProfile = Some \<lparr> username = ''a'', email = ''e@x.com'', phone = [], job = ''j'',
                            interests = [''x''], favorites = F, isPaid = False \<rparr>,
       session = Some example_session,
       loading = False, mounted = True, subscribed = True, inflight = [] \<rparr>"

section \<open>Properties\<close>

subsection \<open>Auxiliary facts\<close>

lemma array_includes_set: "array_includes xs x = (x \<in> set xs)"
  by (induction xs) auto

lemma filter_neq_removeAll: "filter (\<lambda>i. i \<noteq> x) F = removeAll x F"
  by (induction F) auto

lemma newFavorites_spec: "newFavorites F x = spec_toggle F x"
  by (simp add: newFavorites_def spec_toggle_def array_includes_set filter_neq_removeAll)

lemma newFavorites_twice:
  "newFavorites (newFavorites F x) x = (if x \<in> set F then removeAll x F @ [x] else F)"
  by (simp add: newFavorites_def array_includes_set filter_neq_removeAll)

lemma set_newFavorites_twice: "set (newFavorites (newFavorites F x) x) = set F"
  by (auto simp: newFavorites_twice)

lemma count_filter_neq:
  "count_list (filter (\<lambda>i. i \<noteq> x) F) y = (if y = x then 0 else count_list F y)"
  by (induction F) auto

lemma count_list_snoc: "count_list (F @ [x]) y = count_list F y + (if y = x then 1 else 0)"
  by (induction F) auto

lemma count_newFavorites:
  "count_list (newFavorites F x) y =
     (if y = x then (if x \<in> set F then 0 else 1) else count_list F y)"
  by (simp add: newFavorites_def array_includes_set count_filter_neq count_list_snoc count_list_0_iff)

lemma distinct_newFavorites: "distinct F \<Longrightarrow> distinct (newFavorites F x)"
  by (simp add: newFavorites_def array_includes_set)

lemma toggleFavorite_success:
  "currentUser s = Some u \<Longrightarrow> userProfile s = Some p \<Longrightarrow>
   toggleFavorite x (Returns d None) s =
     (Inr (), [UpdateFavorites (uid u) (newFavorites (favorites p) x)],
      s\<lparr>userProfile := Some (p\<lparr>favorites := newFavorites (favorites p) x\<rparr>)\<rparr>)"
  by (simp add: toggleFavorite_def or_list_def Let_def)

lemma toggleFavorite_without_user_or_profile:
  "currentUser s = None \<or> userProfile s = None \<Longrightarrow> toggleFavorite x r s = (Inr (), [], s)"
  by (auto simp: toggleFavorite_def split: option.splits)

lemma updateSubscription_without_user_or_profile:
  "currentUser s = None \<or> userProfile s = None \<Longrightarrow> updateSubscription b r s = (Inr (), [], s)"
  by (auto simp: updateSubscription_def split: option.splits)

lemma cached_favorites_toggle:
  "cached_favorites (snd (snd (toggleFavorite x (Returns d None) s))) =
     (if currentUser s = None then cached_favorites s
      else map_option (\<lambda>F. newFavorites F x) (cached_favorites s))"
  by (auto simp: toggleFavorite_def cached_favorites_def or_list_def Let_def split: option.splits)

lemma currentUser_toggle: "currentUser (snd (snd (toggleFavorite x r s))) = currentUser s"
  by (auto simp: toggleFavorite_def Let_def split: option.splits awaited.splits)

lemmas continuation_defs =
  fetchUserProfile_resume_def initializeAuth_resume_def onAuthStateChange_callback_def
  fetchUserProfile_call_def

lemmas example_defs = example_store_def example_session_def example_row_def

lemmas lifecycle_defs =
  run_def useEffect_run_def useEffect_cleanup_def AuthProvider_init_def initializeAuth_call_def
  session_user_def row_to_profile_def or_string_def or_list_def or_bool_def

text \<open>The continuations written inside the effect test \<^verbatim>\<open>mounted\<close> before they write.\<close>

lemma initializeAuth_resume_unmounted: "\<not> mounted s \<Longrightarrow> initializeAuth_resume r s = s"
  by (simp add: initializeAuth_resume_def split: awaited.splits option.splits)

lemma onAuthStateChange_callback_unmounted: "\<not> mounted s \<Longrightarrow> onAuthStateChange_callback sess s = s"
  by (simp add: onAuthStateChange_callback_def)

text \<open>A settled handling keeps the invariant; settled initialisation establishes it from a
  store without a profile.\<close>

lemma event_settled_inv:
  "profile_only_with_identity s \<Longrightarrow> profile_only_with_identity (event_settled ev s)"
  by (cases "snd ev")
     (auto simp: profile_only_with_identity_def event_settled_def continuation_defs Let_def
        split: option.splits awaited.splits)

lemma initializeAuth_settled_inv:
  "userProfile s = None \<Longrightarrow> profile_only_with_identity (initializeAuth_settled r f s)"
  by (auto simp: profile_only_with_identity_def initializeAuth_settled_def continuation_defs Let_def
        split: option.splits awaited.splits)

lemma events_settled_inv:
  "profile_only_with_identity s \<Longrightarrow> profile_only_with_identity (events_settled evs s)"
  unfolding events_settled_def
  by (induction evs arbitrary: s) (simp_all add: event_settled_inv)

lemma no_profile_after_mount: "userProfile (useEffect_run AuthProvider_init) = None"
  by (simp add: useEffect_run_def AuthProvider_init_def initializeAuth_call_def)

subsection \<open>Profile only with identity\<close>

text \<open>
  \<^bold>\<open>C1\<close>, as stated, fails. Initialisation finds no session; a session-change event signs
  a user in and its profile fetch is sent; a second event signs the user out before the
  fetch has settled; then the fetch settles with a row. Every handling has settled, no
  call is in flight, and the store holds a profile without an identity.
\<close>

theorem overlapping_events_profile_without_identity:
  "\<not> profile_only_with_identity
       (run [GetSessionSettles (Returns None None),
             AuthStateChange (Some example_session),
             AuthStateChange None,
             SelectSettles ''u1'' (Returns (Some example_row) None)]
          (useEffect_run AuthProvider_init))
   \<and> currentUser
       (run [GetSessionSettles (Returns None None),
             AuthStateChange (Some example_session),
             AuthStateChange None,
             SelectSettles ''u1'' (Returns (Some example_row) None)]
          (useEffect_run AuthProvider_init)) = None
   \<and> userProfile
       (run [GetSessionSettles (Returns None None),
             AuthStateChange (Some example_session),
             AuthStateChange None,
             SelectSettles ''u1'' (Returns (Some example_row) None)]
          (useEffect_run AuthProvider_init)) = Some (row_to_profile example_row)
   \<and> inflight
       (run [GetSessionSettles (Returns None None),
             AuthStateChange (Some example_session),
             AuthStateChange None,
             SelectSettles ''u1'' (Returns (Some example_row) None)]
          (useEffect_run AuthProvider_init)) = []"
  by (simp add: profile_only_with_identity_def lifecycle_defs continuation_defs example_defs)

text \<open>The same state is reached when initialisation overlaps an event: its profile fetch
  settles after a sign-out event, or its session request settles, with no session, after
  an event has signed a user in.\<close>

lemma initialisation_races_profile_without_identity:
  "\<not> profile_only_with_identity
       (run [GetSessionSettles (Returns (Some example_session) None),
             AuthStateChange None,
             SelectSettles ''u1'' (Returns (Some example_row) None)]
          (useEffect_run AuthProvider_init))
   \<and> \<not> profile_only_with_identity
       (run [AuthStateChange (Some example_session),
             SelectSettles ''u1'' (Returns (Some example_row) None),
             GetSessionSettles (Returns None None)]
          (useEffect_run AuthProvider_init))"
  by (simp add: profile_only_with_identity_def lifecycle_defs continuation_defs example_defs)

text \<open>
  \<^bold>\<open>C1\<close>, amended. When handlings do not overlap (initialisation and its profile fetch
  have settled before the first session-change event, and each event's handling, with its
  profile fetch, settles before the next event is delivered), then after each event the
  cached profile is non-null only if the cached identity is non-null, for every sequence
  of events and every answer of the service.
\<close>

theorem settled_events_profile_only_with_identity:
  "profile_only_with_identity
     (events_settled evs (initializeAuth_settled r f (useEffect_run AuthProvider_init)))"
  by (intro events_settled_inv initializeAuth_settled_inv no_profile_after_mount)

theorem settled_events_profile_only_with_identity_witness:
  "profile_only_with_identity
     (events_settled
        [(Some example_session, Returns (Some example_row) None), (None, Returns None None)]
        (initializeAuth_settled (Returns None None) (Returns None None)
           (useEffect_run AuthProvider_init)))
   \<and> userProfile
       (events_settled
          [(Some example_session, Returns (Some example_row) None), (None, Returns None None)]
          (initializeAuth_settled (Returns None None) (Returns None None)
             (useEffect_run AuthProvider_init))) = None
   \<and> userProfile
       (events_settled [(Some example_session, Returns (Some example_row) None)]
          (initializeAuth_settled (Returns None None) (Returns None None)
             (useEffect_run AuthProvider_init))) = Some (row_to_profile example_row)"
  using settled_events_profile_only_with_identity
    [of "[(Some example_session, Returns (Some example_row) None), (None, Returns None None)]"
        "Returns None None" "Returns None None"]
  by (simp add: events_settled_def event_settled_def initializeAuth_settled_def
        lifecycle_defs continuation_defs example_defs)

subsection \<open>Toggling a favorite\<close>

text \<open>
  \<^bold>\<open>C2\<close>, as stated, fails: with the favorites \<open>[t1, t2]\<close>, two toggles of \<open>t1\<close>, each
  written successfully, leave \<open>[t2, t1]\<close>.
\<close>

theorem toggleFavorite_twice_reorders:
  "cached_favorites (example_store [''t1'', ''t2'']) = Some [''t1'', ''t2''] \<and>
   cached_favorites
     (snd (snd (toggleFavorite ''t1'' (Returns None None)
        (snd (snd (toggleFavorite ''t1'' (Returns None None) (example_store [''t1'', ''t2''])))))))
     = Some [''t2'', ''t1'']"
  by (simp add: example_store_def toggleFavorite_def cached_favorites_def or_list_def
        newFavorites_def Let_def)

text \<open>
  \<^bold>\<open>C2\<close>, amended. Two toggles of the id \<open>x\<close> in a row, each awaited and each written
  successfully, leave a favorites list with the same members as the original list \<open>F\<close>:
  it is \<open>F\<close> itself when \<open>x\<close> was not in \<open>F\<close>, and \<open>F\<close> with every occurrence of \<open>x\<close>
  removed and one \<open>x\<close> appended when it was. (Without an identity both calls do nothing.)
\<close>

theorem toggleFavorite_twice_same_members:
  "cached_favorites (snd (snd (toggleFavorite x (Returns d2 None)
       (snd (snd (toggleFavorite x (Returns d1 None) s)))))) =
     (if currentUser s = None then cached_favorites s
      else map_option (\<lambda>F. if x \<in> set F then removeAll x F @ [x] else F) (cached_favorites s))
   \<and> map_option set (cached_favorites (snd (snd (toggleFavorite x (Returns d2 None)
       (snd (snd (toggleFavorite x (Returns d1 None) s))))))) = map_option set (cached_favorites s)"
  using set_newFavorites_twice [of _ x]
  by (cases "cached_favorites s")
     (auto simp: cached_favorites_toggle currentUser_toggle newFavorites_twice)

theorem toggleFavorite_twice_same_members_witness:
  "cached_favorites (snd (snd (toggleFavorite ''t2'' (Returns None None)
       (snd (snd (toggleFavorite ''t2'' (Returns None None) (example_store [''t1''])))))))
     = Some [''t1'']
   \<and> map_option set (cached_favorites (snd (snd (toggleFavorite ''t1'' (Returns None None)
       (snd (snd (toggleFavorite ''t1'' (Returns None None) (example_store [''t1'', ''t2''])))))))) =
     Some {''t1'', ''t2''}"
  using toggleFavorite_twice_same_members [of "''t2''" None None "example_store [''t1'']"]
    toggleFavorite_twice_same_members [of "''t1''" None None "example_store [''t1'', ''t2'']"]
  by (simp add: example_store_def cached_favorites_def)

text \<open>
  \<^bold>\<open>C3\<close>, as stated, fails: from the favorites \<open>[a, a]\<close>, which a profile row can
  hold, a successful toggle of \<open>b\<close> leaves \<open>[a, a, b]\<close>.
\<close>

theorem toggleFavorite_keeps_duplicates:
  "cached_favorites (snd (snd (toggleFavorite ''b'' (Returns None None) (example_store [''a'', ''a''])))) =
     Some [''a'', ''a'', ''b'']
   \<and> \<not> distinct [''a'', ''a'', ''b'']"
  by (simp add: example_store_def toggleFavorite_def cached_favorites_def or_list_def
        newFavorites_def Let_def)

text \<open>
  \<^bold>\<open>C3\<close>, amended. After a toggle of the id \<open>x\<close> has been written successfully, \<open>x\<close>
  occurs at most once in the cached favorites, every other id occurs as often as before,
  and so a starting list that has each id at most once gives a list that has each id at
  most once.
\<close>

theorem toggleFavorite_keeps_distinct:
  assumes "currentUser s = Some u" and "userProfile s = Some p"
  shows "\<exists>p'. userProfile (snd (snd (toggleFavorite x (Returns d None) s))) = Some p'
           \<and> count_list (favorites p') x \<le> 1
           \<and> (\<forall>y. y \<noteq> x \<longrightarrow> count_list (favorites p') y = count_list (favorites p) y)
           \<and> (distinct (favorites p) \<longrightarrow> distinct (favorites p'))"
  using assms by (simp add: toggleFavorite_success count_newFavorites distinct_newFavorites)

theorem toggleFavorite_keeps_distinct_witness:
  "currentUser (example_store [''a'', ''b'']) = Some (User ''u1'')
   \<and> map_option favorites (userProfile (example_store [''a'', ''b''])) = Some [''a'', ''b'']
   \<and> distinct [''a'', ''b'']
   \<and> (\<exists>p'. userProfile (snd (snd (toggleFavorite ''c'' (Returns None None)
                 (example_store [''a'', ''b''])))) = Some p'
         \<and> count_list (favorites p') ''c'' \<le> 1
         \<and> count_list (favorites p') ''a'' = 1
         \<and> distinct (favorites p'))"
  using toggleFavorite_keeps_distinct
    [of "example_store [''a'', ''b'']" "User ''u1''"
        "\<lparr> username = ''a'', email = ''e@x.com'', phone = [], job = ''j'',
           interests = [''x''], favorites = [''a'', ''b''], isPaid = False \<rparr>" "''c''" None]
  by (auto simp: example_store_def)

text \<open>
  \<^bold>\<open>C4\<close>. With an identity and a profile cached, \<^verbatim>\<open>toggleFavorite\<close> sends, and after
  the successful write caches, the list the spec describes: the id removed if it is a
  member of the current favorites, appended otherwise. From the favorites \<open>[t1]\<close>, the
  toggle of \<open>t1\<close> gives \<open>[]\<close> and the toggle of \<open>t2\<close> gives \<open>[t1, t2]\<close>.
\<close>

theorem toggleFavorite_removes_or_appends:
  "(currentUser s = Some u \<and> userProfile s = Some p \<longrightarrow>
     toggleFavorite x (Returns d None) s =
       (Inr (), [UpdateFavorites (uid u) (spec_toggle (favorites p) x)],
        s\<lparr>userProfile := Some (p\<lparr>favorites := spec_toggle (favorites p) x\<rparr>)\<rparr>))
   \<and> cached_favorites (snd (snd (toggleFavorite ''t1'' (Returns d None) (example_store [''t1''])))) = Some []
   \<and> cached_favorites (snd (snd (toggleFavorite ''t2'' (Returns d None) (example_store [''t1''])))) =
       Some [''t1'', ''t2'']"
  by (simp add: toggleFavorite_success newFavorites_spec cached_favorites_toggle)
     (simp add: example_store_def cached_favorites_def spec_toggle_def)

theorem toggleFavorite_removes_or_appends_witness:
  "toggleFavorite ''t2'' (Returns None None) (example_store [''t1'']) =
     (Inr (), [UpdateFavorites ''u1'' [''t1'', ''t2'']], example_store [''t1'', ''t2''])
   \<and> toggleFavorite ''t1'' (Returns None None) (example_store [''t1'']) =
     (Inr (), [UpdateFavorites ''u1'' []], example_store [])"
  using toggleFavorite_removes_or_appends
    [of "example_store [''t1'']" "User ''u1''"
        "\<lparr> username = ''a'', email = ''e@x.com'', phone = [], job = ''j'',
           interests = [''x''], favorites = [''t1''], isPaid = False \<rparr>" "''t2''" None]
    toggleFavorite_removes_or_appends
    [of "example_store [''t1'']" "User ''u1''"
        "\<lparr> username = ''a'', email = ''e@x.com'', phone = [], job = ''j'',
           interests = [''x''], favorites = [''t1''], isPaid = False \<rparr>" "''t1''" None]
  by (simp add: example_store_def spec_toggle_def)

subsection \<open>Failures and no-ops of the two profile mutations\<close>

text \<open>
  \<^bold>\<open>C5\<close>. When the remote write of \<^verbatim>\<open>toggleFavorite\<close> or of \<^verbatim>\<open>updateSubscription\<close>
  fails (the call throws, or it returns an error), the operation made that one write,
  its promise is rejected with the remote error, and the store, with the cached profile,
  its favorites and its paid flag, is as it was.
\<close>

theorem write_failure_rethrows_and_keeps_store:
  assumes "r = Throws e \<or> r = Returns d (Some e)"
      and "currentUser s = Some u" and "userProfile s = Some p"
  shows "toggleFavorite x r s = (Inl e, [UpdateFavorites (uid u) (newFavorites (favorites p) x)], s)
       \<and> updateSubscription b r s = (Inl e, [UpdateIsPaid (uid u) b], s)"
  using assms by (auto simp: toggleFavorite_def updateSubscription_def or_list_def Let_def)

theorem write_failure_rethrows_and_keeps_store_witness:
  "toggleFavorite ''t2'' (Returns None (Some (RemoteError ''500'' ''down''))) (example_store [''t1'']) =
     (Inl (RemoteError ''500'' ''down''), [UpdateFavorites ''u1'' [''t1'', ''t2'']], example_store [''t1''])
   \<and> updateSubscription True (Returns None (Some (RemoteError ''500'' ''down''))) (example_store [''t1'']) =
     (Inl (RemoteError ''500'' ''down''), [UpdateIsPaid ''u1'' True], example_store [''t1''])"
  using write_failure_rethrows_and_keeps_store
    [of "Returns None (Some (RemoteError ''500'' ''down''))" "RemoteError ''500'' ''down''" None
        "example_store [''t1'']" "User ''u1''"
        "\<lparr> username = ''a'', email = ''e@x.com'', phone = [], job = ''j'',
           interests = [''x''], favorites = [''t1''], isPaid = False \<rparr>" "''t2''" True]
  by (simp add: example_store_def newFavorites_def)

text \<open>
  \<^bold>\<open>C8\<close>. With no identity or no profile cached, \<^verbatim>\<open>toggleFavorite\<close> and
  \<^verbatim>\<open>updateSubscription\<close> make no remote call, their promises are fulfilled, and the store
  is left as it was.
\<close>

theorem no_identity_or_profile_noop:
  "currentUser s = None \<or> userProfile s = None \<Longrightarrow>
     toggleFavorite x r s = (Inr (), [], s) \<and> updateSubscription b r' s = (Inr (), [], s)"
  by (simp add: toggleFavorite_without_user_or_profile updateSubscription_without_user_or_profile)

theorem no_identity_or_profile_noop_witness:
  "currentUser AuthProvider_init = None
   \<and> toggleFavorite ''t1'' (Returns None None) AuthProvider_init = (Inr (), [], AuthProvider_init)
   \<and> updateSubscription True (Returns None None) AuthProvider_init = (Inr (), [], AuthProvider_init)"
  using no_identity_or_profile_noop
    [of AuthProvider_init "''t1''" "Returns None None" True "Returns None None"]
  by (simp add: AuthProvider_init_def)

subsection \<open>Teardown\<close>

text \<open>
  \<^bold>\<open>C6\<close> on the code. Initialisation finds a session with a user and sends the profile
  fetch; the component is torn down; the fetch settles with a row. The continuation of
  \<^verbatim>\<open>fetchUserProfile\<close> does not read \<^verbatim>\<open>mounted\<close>: after teardown it writes the profile and
  the loading flag.
\<close>

theorem fetch_settling_after_teardown_writes:
  "mounted (run [GetSessionSettles (Returns (Some example_session) None), Teardown]
              (useEffect_run AuthProvider_init)) = False
   \<and> userProfile (run [GetSessionSettles (Returns (Some example_session) None), Teardown]
              (useEffect_run AuthProvider_init)) = None
   \<and> loading (run [GetSessionSettles (Returns (Some example_session) None), Teardown]
              (useEffect_run AuthProvider_init)) = True
   \<and> userProfile (run [GetSessionSettles (Returns (Some example_session) None), Teardown,
                       SelectSettles ''u1'' (Returns (Some example_row) None)]
              (useEffect_run AuthProvider_init)) = Some (row_to_profile example_row)
   \<and> loading (run [GetSessionSettles (Returns (Some example_session) None), Teardown,
                       SelectSettles ''u1'' (Returns (Some example_row) None)]
              (useEffect_run AuthProvider_init)) = False"
  by (simp add: lifecycle_defs continuation_defs example_defs)

subsection \<open>Profile fetch and signup\<close>

text \<open>
  \<^bold>\<open>C7\<close>. A profile fetch whose query returns the error code \<^verbatim>\<open>PGRST116\<close> sets the
  cached profile to null and the loading flag to false, and its promise is fulfilled.
\<close>

theorem fetch_no_rows_is_benign:
  "fetchUserProfile_resume (Returns d (Some (RemoteError ''PGRST116'' m))) s =
     (Inr (), s\<lparr>userProfile := None, loading := False\<rparr>)
   \<and> userProfile (snd (fetchUserProfile_resume (Returns d (Some (RemoteError ''PGRST116'' m))) s)) = None
   \<and> loading (snd (fetchUserProfile_resume (Returns d (Some (RemoteError ''PGRST116'' m))) s)) = False"
  by (simp add: fetchUserProfile_resume_def)

text \<open>
  \<^bold>\<open>C9\<close>. A successful signup with the profile fields
  \<^verbatim>\<open>{username:"a", email:"e@x.com", phone:"", job:"j", interests:["x"]}\<close> inserts one row;
  a profile fetch that returns that row caches a profile with those fields, no favorites
  and the paid flag false.
\<close>

theorem signup_then_fetch_roundtrip:
  "signup em pw \<lparr>username = ''a'', email = ''e@x.com'', phone = [], job = ''j'', interests = [''x'']\<rparr>
       (Returns (Some u) None) (Returns d None) =
     (Inr (), [SignUp em pw,
               Insert \<lparr> user_id = uid u, username_col = ''a'', email_col = ''e@x.com'',
                  phone_col = Some [], job_col = ''j'', interests_col = Some [''x''],
                  favorites_col = Some [], is_paid = Some False \<rparr>])
   \<and> fetchUserProfile_resume
         (Returns (Some \<lparr> user_id = uid u, username_col = ''a'', email_col = ''e@x.com'',
                  phone_col = Some [], job_col = ''j'', interests_col = Some [''x''],
                  favorites_col = Some [], is_paid = Some False \<rparr>) None) s =
     (Inr (), s\<lparr>userProfile := Some \<lparr>username = ''a'', email = ''e@x.com'', phone = [], job = ''j'',
                   interests = [''x''], favorites = [], isPaid = False\<rparr>, loading := False\<rparr>)"
  by (simp add: signup_def fetchUserProfile_resume_def row_to_profile_def
        or_string_def or_list_def or_bool_def)

text \<open>The round trip for every profile payload.\<close>

lemma signup_roundtrip_any_profile:
  "signup em pw p (Returns (Some u) None) (Returns d None) = (res, reqs) \<Longrightarrow>
   \<exists>row. reqs = [SignUp em pw, Insert row] \<and> res = Inr () \<and>
     userProfile (snd (fetchUserProfile_resume (Returns (Some row) None) s)) =
       Some \<lparr>username = username p, email = email p, phone = phone p, job = job p,
              interests = interests p, favorites = [], isPaid = False\<rparr>"
  by (auto simp: signup_def fetchUserProfile_resume_def row_to_profile_def
        or_string_def or_list_def or_bool_def)

subsection \<open>The accessor outside a provider\<close>

text \<open>
  \<^bold>\<open>C10\<close>. \<^verbatim>\<open>useAuth\<close> called with no enclosing \<^verbatim>\<open>AuthProvider\<close>, where the context
  value is undefined, throws; it throws exactly when the context value is undefined.
\<close>

theorem useAuth_outside_provider_throws:
  "useAuth [] = Inl (Error ''useAuth must be used within an AuthProvider'')
   \<and> ((\<exists>e. useAuth ps = Inl e) = (useContext_AuthContext ps = None))
   \<and> ((useContext_AuthContext ps = None) = (ps = []))"
  by (auto simp: useAuth_def useContext_AuthContext_def split: list.splits)

end
